theory Spec2Isabelle
  imports Main "HOL-Library.Sublist" "HOL-Library.Multiset"
begin

section \<open>Common vocabulary\<close>

text \<open>
  A JavaScript \<^verbatim>\<open>throw\<close> is the left summand of a sum type; a normal return is the
  right summand. The exceptions that the modelled code raises or lets through are
  collected in one datatype. \<^verbatim>\<open>Error\<close> carries the message of \<^verbatim>\<open>new Error(message)\<close>;
  \<^verbatim>\<open>PrismaClientKnownRequestError\<close> carries the Prisma error code and
  \<^verbatim>\<open>DatabaseError\<close> the PostgreSQL error code.
\<close>

datatype exception =
    Error string
  | PrismaClientKnownRequestError string
  | DatabaseError string

text \<open>Sequencing of calls that may throw: the first throw ends the computation.\<close>

fun and_then :: "'e + 'a \<Rightarrow> ('a \<Rightarrow> 'e + 'b) \<Rightarrow> 'e + 'b" where
  "and_then (Inl e) f = Inl e"
| "and_then (Inr a) f = f a"

text \<open>\<^verbatim>\<open>Array.prototype.join\<close> on an array of strings.\<close>

fun join :: "string list \<Rightarrow> string \<Rightarrow> string" where
  "join [] sep = []"
| "join [x] sep = x"
| "join (x # y # ys) sep = x @ sep @ join (y # ys) sep"

definition dquote :: string where
  "dquote = [CHR 0x22]"

definition newline :: string where
  "newline = [CHR 0x0A]"

section \<open>Feature providers (feature-providers.enum.ts)\<close>

text \<open>
  The TypeScript string enums: every member is the string it is initialised with.
  \<^verbatim>\<open>VALID_PROVIDERS.X\<close> is \<^verbatim>\<open>Object.values\<close> of the enum, in declaration order.
\<close>

definition PRISMA_POSTGRESQL :: string where "PRISMA_POSTGRESQL = ''prisma-postgresql''"
definition DRIZZLE_POSTGRESQL :: string where "DRIZZLE_POSTGRESQL = ''drizzle-postgresql''"
definition MONGOOSE_MONGODB :: string where "MONGOOSE_MONGODB = ''mongoose-mongodb''"

definition BUGSNAG :: string where "BUGSNAG = ''bugsnag''"
definition SENTRY :: string where "SENTRY = ''sentry''"
definition POSTHOG :: string where "POSTHOG = ''posthog''"
definition ErrorTracking_NONE :: string where "ErrorTracking_NONE = ''none''"

definition COMPOSITE :: string where "COMPOSITE = ''composite''"
definition BEARER_ONLY :: string where "BEARER_ONLY = ''bearer-only''"
definition API_KEY_ONLY :: string where "API_KEY_ONLY = ''api-key-only''"
definition Auth_NONE :: string where "Auth_NONE = ''none''"

definition REDIS :: string where "REDIS = ''redis''"
definition MEMORY :: string where "MEMORY = ''memory''"
definition Cache_NONE :: string where "Cache_NONE = ''none''"

definition SWAGGER :: string where "SWAGGER = ''swagger''"
definition Documentation_NONE :: string where "Documentation_NONE = ''none''"

definition Logging_DETAILED :: string where "Logging_DETAILED = ''detailed''"
definition Logging_BASIC :: string where "Logging_BASIC = ''basic''"
definition Logging_NONE :: string where "Logging_NONE = ''none''"

definition Performance_FULL :: string where "Performance_FULL = ''full''"
definition Performance_BASIC :: string where "Performance_BASIC = ''basic''"
definition Performance_NONE :: string where "Performance_NONE = ''none''"

definition VALID_PROVIDERS_DATABASE :: "string list" where
  "VALID_PROVIDERS_DATABASE = [PRISMA_POSTGRESQL, DRIZZLE_POSTGRESQL, MONGOOSE_MONGODB]"

definition VALID_PROVIDERS_ERROR_TRACKING :: "string list" where
  "VALID_PROVIDERS_ERROR_TRACKING = [BUGSNAG, SENTRY, POSTHOG, ErrorTracking_NONE]"

definition VALID_PROVIDERS_AUTH :: "string list" where
  "VALID_PROVIDERS_AUTH = [COMPOSITE, BEARER_ONLY, API_KEY_ONLY, Auth_NONE]"

definition VALID_PROVIDERS_CACHE :: "string list" where
  "VALID_PROVIDERS_CACHE = [REDIS, MEMORY, Cache_NONE]"

definition VALID_PROVIDERS_DOCUMENTATION :: "string list" where
  "VALID_PROVIDERS_DOCUMENTATION = [SWAGGER, Documentation_NONE]"

definition VALID_PROVIDERS_LOGGING :: "string list" where
  "VALID_PROVIDERS_LOGGING = [Logging_DETAILED, Logging_BASIC, Logging_NONE]"

definition VALID_PROVIDERS_PERFORMANCE :: "string list" where
  "VALID_PROVIDERS_PERFORMANCE = [Performance_FULL, Performance_BASIC, Performance_NONE]"

section \<open>FeatureFlagsService (feature-flags.config.ts)\<close>

text \<open>
  The configuration source read through \<^verbatim>\<open>ConfigService\<close> is a finite map from option
  names to strings (the process environment). \<^verbatim>\<open>get(key)\<close> yields \<^verbatim>\<open>undefined\<close>
  (\<open>None\<close>) for an unset key; \<^verbatim>\<open>get(key, defaultValue)\<close> yields the default then.
  The writes to the logger that accompany each throw carry the same text as the thrown
  error and are left out of this part of the model.
\<close>

type_synonym config_source = "string \<rightharpoonup> string"

definition configService_get :: "config_source \<Rightarrow> string \<Rightarrow> string option" where
  "configService_get env key = env key"

definition configService_get_default :: "config_source \<Rightarrow> string \<Rightarrow> string \<Rightarrow> string" where
  "configService_get_default env key defaultValue =
     (case env key of None \<Rightarrow> defaultValue | Some v \<Rightarrow> v)"

record FeatureFlagsConfig =
  database :: string
  errorTracking :: string
  auth :: string
  cache :: string
  documentation :: string
  logging :: string
  performance :: string

definition getValidatedProvider ::
  "config_source \<Rightarrow> string \<Rightarrow> string list \<Rightarrow> string \<Rightarrow> exception + string" where
  "getValidatedProvider env envVar validOptions defaultValue =
     (let v = configService_get_default env envVar defaultValue in
      if v \<notin> set validOptions
      then Inl (Error (''Invalid '' @ envVar @ '': '' @ dquote @ v @ dquote
                        @ ''. Valid options: '' @ join validOptions '', ''))
      else Inr v)"

text \<open>JavaScript truthiness of an optional string: \<^verbatim>\<open>undefined\<close> and \<^verbatim>\<open>''\<close> are falsy.\<close>

definition falsy :: "string option \<Rightarrow> bool" where
  "falsy v = (case v of None \<Rightarrow> True | Some s \<Rightarrow> s = [])"

text \<open>\<^verbatim>\<open>Object.entries(config)\<close>: the properties in the order the literal lists them.\<close>

definition entries :: "FeatureFlagsConfig \<Rightarrow> (string \<times> string) list" where
  "entries config =
     [(''database'', database config), (''errorTracking'', errorTracking config),
      (''auth'', auth config), (''cache'', cache config),
      (''documentation'', documentation config), (''logging'', logging config),
      (''performance'', performance config)]"

definition MONGODB_URL_required :: string where
  "MONGODB_URL_required = ''MONGODB_URL is required when using mongoose-mongodb database provider''"

definition DATABASE_URL_required :: string where
  "DATABASE_URL_required = ''DATABASE_URL is required when using PostgreSQL database providers''"

definition REDIS_HOST_required :: string where
  "REDIS_HOST_required = ''REDIS_HOST is required when using redis cache provider''"

definition validation_failed :: "string list \<Rightarrow> string" where
  "validation_failed errors =
     ''Feature flag validation failed:'' @ newline
       @ join (map (\<lambda>e. ''  - '' @ e) errors) newline"

definition validateConfiguration :: "config_source \<Rightarrow> FeatureFlagsConfig \<Rightarrow> exception + unit" where
  "validateConfiguration env config =
     (let errors0 = concat (map (\<lambda>(feature, provider).
                       if provider = []
                       then [''Feature '' @ dquote @ feature @ dquote @ '' has no provider selected'']
                       else []) (entries config));
          errors1 = errors0 @
            (if database config = MONGOOSE_MONGODB
             then (if falsy (configService_get env ''MONGODB_URL'') then [MONGODB_URL_required] else [])
             else []);
          errors2 = errors1 @
            (if database config \<in> set [PRISMA_POSTGRESQL, DRIZZLE_POSTGRESQL]
             then (if falsy (configService_get env ''DATABASE_URL'') then [DATABASE_URL_required] else [])
             else []);
          errors3 = errors2 @
            (if cache config = REDIS
             then (if falsy (configService_get env ''REDIS_HOST'') then [REDIS_HOST_required] else [])
             else [])
      in if length errors3 > 0 then Inl (Error (validation_failed errors3)) else Inr ())"

text \<open>
  \<^verbatim>\<open>loadAndValidateConfig\<close>: the seven property initialisers of the object literal run in
  source order, each one a call of \<^verbatim>\<open>getValidatedProvider\<close>; a throw in one of them
  leaves the later ones unevaluated. The constructor stores the result, so constructing
  the service is this function.
\<close>

definition loadAndValidateConfig :: "config_source \<Rightarrow> exception + FeatureFlagsConfig" where
  "loadAndValidateConfig env =
     and_then (getValidatedProvider env ''DATABASE_PROVIDER'' VALID_PROVIDERS_DATABASE PRISMA_POSTGRESQL) (\<lambda>db.
     and_then (getValidatedProvider env ''ERROR_TRACKING_PROVIDER'' VALID_PROVIDERS_ERROR_TRACKING ErrorTracking_NONE) (\<lambda>et.
     and_then (getValidatedProvider env ''AUTH_PROVIDER'' VALID_PROVIDERS_AUTH COMPOSITE) (\<lambda>au.
     and_then (getValidatedProvider env ''CACHE_PROVIDER'' VALID_PROVIDERS_CACHE REDIS) (\<lambda>ca.
     and_then (getValidatedProvider env ''DOCUMENTATION_PROVIDER'' VALID_PROVIDERS_DOCUMENTATION SWAGGER) (\<lambda>doc.
     and_then (getValidatedProvider env ''LOGGING_PROVIDER'' VALID_PROVIDERS_LOGGING Logging_BASIC) (\<lambda>lg.
     and_then (getValidatedProvider env ''PERFORMANCE_PROVIDER'' VALID_PROVIDERS_PERFORMANCE Performance_BASIC) (\<lambda>pf.
       let config = \<lparr>database = db, errorTracking = et, auth = au, cache = ca,
                      documentation = doc, logging = lg, performance = pf\<rparr>
       in and_then (validateConfiguration env config) (\<lambda>_. Inr config))))))))"

definition FeatureFlagsService :: "config_source \<Rightarrow> exception + FeatureFlagsConfig" where
  "FeatureFlagsService env = loadAndValidateConfig env"


section \<open>Todo entity (todo.entity.ts)\<close>

text \<open>
  A \<^verbatim>\<open>Date\<close> is its number of milliseconds since the epoch. An optional property is an
  \<open>option\<close>: \<open>None\<close> stands for \<^verbatim>\<open>undefined\<close> and for the \<^verbatim>\<open>null\<close> of a nullable
  column. \<^verbatim>\<open>Record<string, any>\<close> is opaque to the program and is kept as an association
  list. The property \<^verbatim>\<open>id\<close> is named \<open>id'\<close> here, and the properties of the two
  input types carry the prefixes \<open>c_\<close> and \<open>u_\<close>.
\<close>

type_synonym date = nat

type_synonym json_record = "(string \<times> string) list"

record Todo =
  id' :: string
  title :: string
  description :: "string option"
  completed :: bool
  priority :: "string option"
  dueDate :: "date option"
  tags :: "string list"
  metadata :: "json_record option"
  createdAt :: date
  updatedAt :: date

record CreateTodoInput =
  c_title :: string
  c_description :: "string option"
  c_completed :: "bool option"
  c_priority :: "string option"
  c_dueDate :: "date option"
  c_tags :: "string list option"
  c_metadata :: "json_record option"

record UpdateTodoInput =
  u_title :: "string option"
  u_description :: "string option"
  u_completed :: "bool option"
  u_priority :: "string option"
  u_dueDate :: "date option"
  u_tags :: "string list option"
  u_metadata :: "json_record option"

text \<open>Array destructuring \<^verbatim>\<open>const [x] = xs\<close>: the first element, \<^verbatim>\<open>undefined\<close> if there is none.\<close>

definition first_of :: "'a list \<Rightarrow> 'a option" where
  "first_of xs = (case xs of [] \<Rightarrow> None | x # _ \<Rightarrow> Some x)"

section \<open>Validation schemas (todo-schemas.ts) and the validation pipe (zod-validation.pipe.ts)\<close>

record ZodIssue =
  path :: "string list"
  issue_message :: string
  issue_code :: string

text \<open>What \<^verbatim>\<open>schema.parse\<close> may throw: a \<^verbatim>\<open>ZodError\<close> with its issues, or anything else.\<close>

datatype thrown = ZodError "ZodIssue list" | OtherThrown

text \<open>
  \<^verbatim>\<open>CreateTodoSchema.parse\<close> on a value of type \<^verbatim>\<open>CreateTodoInput\<close>. Issues are
  collected in the order of the schema's keys; the enum issue carries the code and the
  message that the library gives to a value outside an enum. Lengths are those of the model's character lists. A \<^verbatim>\<open>Date\<close> passes
  \<^verbatim>\<open>z.coerce.date()\<close> as it is. On success the defaults of \<^verbatim>\<open>completed\<close>,
  \<^verbatim>\<open>priority\<close> and \<^verbatim>\<open>tags\<close> are filled in.
\<close>

definition CreateTodoSchema :: "CreateTodoInput \<Rightarrow> thrown + CreateTodoInput" where
  "CreateTodoSchema input =
     (let issues =
            (if length (c_title input) < 1
             then [\<lparr>path = [''title''], issue_message = ''Title is required'',
                    issue_code = ''too_small''\<rparr>]
             else [])
          @ (if length (c_title input) > 200
             then [\<lparr>path = [''title''],
                    issue_message = ''Title must be less than 200 characters'',
                    issue_code = ''too_big''\<rparr>]
             else [])
          @ (case c_description input of
               None \<Rightarrow> []
             | Some d \<Rightarrow>
                 if length d > 1000
                 then [\<lparr>path = [''description''],
                        issue_message = ''Description must be less than 1000 characters'',
                        issue_code = ''too_big''\<rparr>]
                 else [])
          @ (case c_priority input of
               None \<Rightarrow> []
             | Some p \<Rightarrow>
                 if p \<in> set [''low'', ''medium'', ''high'']
                 then []
                 else [\<lparr>path = [''priority''],
                        issue_message = ''Invalid option: expected one of '' @ dquote @ ''low'' @ dquote
                          @ ''|'' @ dquote @ ''medium'' @ dquote
                          @ ''|'' @ dquote @ ''high'' @ dquote,
                        issue_code = ''invalid_value''\<rparr>])
      in if issues = []
         then Inr (input\<lparr>
                c_completed := Some (case c_completed input of None \<Rightarrow> False | Some b \<Rightarrow> b),
                c_priority := Some (case c_priority input of None \<Rightarrow> ''medium'' | Some p \<Rightarrow> p),
                c_tags := Some (case c_tags input of None \<Rightarrow> [] | Some ts \<Rightarrow> ts)\<rparr>)
         else Inl (ZodError issues))"

datatype Paramtype = body | query | param | custom

record ArgumentMetadata =
  arg_type :: Paramtype
  arg_data :: "string option"

record FormattedError =
  field :: string
  message :: string
  code :: string

text \<open>
  \<^verbatim>\<open>BadRequestException\<close> is constructed either from the object
  \<^verbatim>\<open>{message, errors, statusCode}\<close> or from a string.
\<close>

datatype HttpException =
    BadRequestException_object string "FormattedError list" nat
  | BadRequestException_string string

definition ZodValidationPipe_transform ::
  "('v \<Rightarrow> thrown + 'v) \<Rightarrow> 'v \<Rightarrow> ArgumentMetadata \<Rightarrow> HttpException + 'v" where
  "ZodValidationPipe_transform schema v argMetadata =
     (if arg_type argMetadata \<noteq> body then Inr v
      else case schema v of
             Inr parsedValue \<Rightarrow> Inr parsedValue
           | Inl (ZodError issues) \<Rightarrow>
               Inl (BadRequestException_object ''Validation failed''
                      (map (\<lambda>err. \<lparr>field = join (path err) ''.'', message = issue_message err,
                                    code = issue_code err\<rparr>) issues)
                      400)
           | Inl OtherThrown \<Rightarrow> Inl (BadRequestException_string ''Validation failed''))"

section \<open>The PostgreSQL table behind Prisma and Drizzle\<close>

text \<open>
  The table \<^verbatim>\<open>todos\<close> is the list of its rows; \<^verbatim>\<open>id\<close> is its primary key. The
  operations of the two client libraries are modelled by what they do to this list:
  a filter for \<^verbatim>\<open>where\<close>, a stable sort for \<^verbatim>\<open>orderBy\<close> (ascending unless \<^verbatim>\<open>desc\<close>
  is asked for), and the rows touched for \<^verbatim>\<open>returning()\<close>. The order among rows of
  equal sort key is the database's choice; the model fixes one.
\<close>

definition eq_id :: "string \<Rightarrow> Todo \<Rightarrow> bool" where
  "eq_id i row = (id' row = i)"

definition orderBy_asc :: "('r \<Rightarrow> date) \<Rightarrow> 'r list \<Rightarrow> 'r list" where
  "orderBy_asc col rows = sort_key col rows"

definition orderBy_desc :: "('r \<Rightarrow> date) \<Rightarrow> 'r list \<Rightarrow> 'r list" where
  "orderBy_desc col rows = rev (sort_key col rows)"

text \<open>
  Inserting a row: a column left \<^verbatim>\<open>undefined\<close> takes its default from the table
  definition (\<^verbatim>\<open>completed\<close> false, \<^verbatim>\<open>priority\<close> 'medium', \<^verbatim>\<open>tags\<close> empty); a second row
  with the same primary key is refused.
\<close>

record InsertValues =
  v_id :: string
  v_title :: string
  v_description :: "string option"
  v_completed :: "bool option"
  v_priority :: "string option"
  v_dueDate :: "date option"
  v_tags :: "string list option"
  v_metadata :: "json_record option"
  v_createdAt :: date
  v_updatedAt :: date

definition row_of :: "InsertValues \<Rightarrow> Todo" where
  "row_of v =
     \<lparr>id' = v_id v, title = v_title v, description = v_description v,
      completed = (case v_completed v of None \<Rightarrow> False | Some b \<Rightarrow> b),
      priority = (case v_priority v of None \<Rightarrow> Some ''medium'' | Some p \<Rightarrow> Some p),
      dueDate = v_dueDate v,
      tags = (case v_tags v of None \<Rightarrow> [] | Some ts \<Rightarrow> ts),
      metadata = v_metadata v,
      createdAt = v_createdAt v, updatedAt = v_updatedAt v\<rparr>"

text \<open>
  The \<^verbatim>\<open>set\<close> of an update: a property that is present overwrites its column, an
  \<^verbatim>\<open>undefined\<close> one leaves the column as it is.
\<close>

definition set_columns :: "UpdateTodoInput \<Rightarrow> Todo \<Rightarrow> Todo" where
  "set_columns data row =
     row\<lparr>title := (case u_title data of None \<Rightarrow> title row | Some x \<Rightarrow> x),
         description := (case u_description data of None \<Rightarrow> description row | Some x \<Rightarrow> Some x),
         completed := (case u_completed data of None \<Rightarrow> completed row | Some x \<Rightarrow> x),
         priority := (case u_priority data of None \<Rightarrow> priority row | Some x \<Rightarrow> Some x),
         dueDate := (case u_dueDate data of None \<Rightarrow> dueDate row | Some x \<Rightarrow> Some x),
         tags := (case u_tags data of None \<Rightarrow> tags row | Some x \<Rightarrow> x),
         metadata := (case u_metadata data of None \<Rightarrow> metadata row | Some x \<Rightarrow> Some x)\<rparr>"

subsection \<open>Drizzle query builder\<close>

definition drizzle_insert_returning ::
  "Todo list \<Rightarrow> InsertValues \<Rightarrow> (exception + Todo list) \<times> Todo list" where
  "drizzle_insert_returning rows v =
     (if v_id v \<in> set (map id' rows) then (Inl (DatabaseError ''23505''), rows)
      else (Inr [row_of v], rows @ [row_of v]))"

definition drizzle_update_returning ::
  "Todo list \<Rightarrow> (Todo \<Rightarrow> Todo) \<Rightarrow> (Todo \<Rightarrow> bool) \<Rightarrow> Todo list \<times> Todo list" where
  "drizzle_update_returning rows upd cond =
     (map upd (filter cond rows), map (\<lambda>row. if cond row then upd row else row) rows)"

definition drizzle_delete_returning ::
  "Todo list \<Rightarrow> (Todo \<Rightarrow> bool) \<Rightarrow> Todo list \<times> Todo list" where
  "drizzle_delete_returning rows cond = (filter cond rows, filter (\<lambda>row. \<not> cond row) rows)"

subsection \<open>DrizzleTodoRepository (drizzle-todo.repository.ts)\<close>

text \<open>
  \<open>newId\<close> is the value of \<^verbatim>\<open>createId()\<close>; \<open>now1\<close>, \<open>now2\<close> and \<open>now\<close> are the
  readings of the clock taken by \<^verbatim>\<open>new Date()\<close>. A method that changes the table
  returns the new table beside its result. A result \<open>None\<close> is the value
  \<^verbatim>\<open>undefined\<close> (or \<^verbatim>\<open>null\<close>) returned to the caller.
\<close>

definition DrizzleTodoRepository_create ::
  "Todo list \<Rightarrow> string \<Rightarrow> date \<Rightarrow> date \<Rightarrow> CreateTodoInput \<Rightarrow> (exception + Todo option) \<times> Todo list" where
  "DrizzleTodoRepository_create rows newId now1 now2 data =
     (let newTodo = \<lparr>v_id = newId, v_title = c_title data, v_description = c_description data,
                     v_completed = Some (case c_completed data of None \<Rightarrow> False | Some b \<Rightarrow> b),
                     v_priority = c_priority data, v_dueDate = c_dueDate data,
                     v_tags = Some (case c_tags data of None \<Rightarrow> [] | Some ts \<Rightarrow> ts),
                     v_metadata = c_metadata data,
                     v_createdAt = now1, v_updatedAt = now2\<rparr>
      in case drizzle_insert_returning rows newTodo of
           (Inl e, rows') \<Rightarrow> (Inl e, rows')
         | (Inr returned, rows') \<Rightarrow> (Inr (first_of returned), rows'))"

definition DrizzleTodoRepository_findAll :: "Todo list \<Rightarrow> Todo list" where
  "DrizzleTodoRepository_findAll rows = orderBy_asc createdAt rows"

definition DrizzleTodoRepository_findById :: "Todo list \<Rightarrow> string \<Rightarrow> exception + Todo option" where
  "DrizzleTodoRepository_findById rows i =
     (case first_of (filter (eq_id i) rows) of
        None \<Rightarrow> Inr None
      | Some result \<Rightarrow> Inr (Some result))"

definition DrizzleTodoRepository_update ::
  "Todo list \<Rightarrow> date \<Rightarrow> string \<Rightarrow> UpdateTodoInput \<Rightarrow> (exception + Todo option) \<times> Todo list" where
  "DrizzleTodoRepository_update rows now i data =
     (case drizzle_update_returning rows (\<lambda>row. (set_columns data row)\<lparr>updatedAt := now\<rparr>) (eq_id i) of
        (returned, rows') \<Rightarrow> (Inr (first_of returned), rows'))"

definition DrizzleTodoRepository_delete ::
  "Todo list \<Rightarrow> string \<Rightarrow> (exception + Todo option) \<times> Todo list" where
  "DrizzleTodoRepository_delete rows i =
     (case drizzle_delete_returning rows (eq_id i) of
        (returned, rows') \<Rightarrow> (Inr (first_of returned), rows'))"

definition DrizzleTodoRepository_findByTags :: "Todo list \<Rightarrow> string list \<Rightarrow> Todo list" where
  "DrizzleTodoRepository_findByTags rows tgs =
     filter (\<lambda>todo. list_ex (\<lambda>tag. tag \<in> set (tags todo)) tgs) (orderBy_asc createdAt rows)"


subsection \<open>Prisma client\<close>

text \<open>
  Modelled from the spec: the Prisma schema (\<^verbatim>\<open>schema.prisma\<close>) that declares the model
  \<^verbatim>\<open>Todo\<close> is not among the sources; only the migration generated from it is. Following
  the spec's data model and repository contract, \<^verbatim>\<open>id\<close> and the timestamps are
  system-assigned at creation, \<^verbatim>\<open>updatedAt\<close> is refreshed by an update that writes a
  column, and the column defaults are those of the migration. For a patch that names no
  column the client has nothing to write: it issues no UPDATE and hands back the row as it
  is stored, \<^verbatim>\<open>updatedAt\<close> included. \<^verbatim>\<open>update\<close> and \<^verbatim>\<open>delete\<close> on a missing
  row throw the client's error P2025, a second row with the same key P2002.
\<close>

definition prisma_create :: "Todo list \<Rightarrow> InsertValues \<Rightarrow> (exception + Todo) \<times> Todo list" where
  "prisma_create rows v =
     (if v_id v \<in> set (map id' rows) then (Inl (PrismaClientKnownRequestError ''P2002''), rows)
      else (Inr (row_of v), rows @ [row_of v]))"

definition prisma_findMany_desc :: "Todo list \<Rightarrow> (Todo \<Rightarrow> bool) \<Rightarrow> Todo list" where
  "prisma_findMany_desc rows cond = orderBy_desc createdAt (filter cond rows)"

definition prisma_findUnique :: "Todo list \<Rightarrow> string \<Rightarrow> Todo option" where
  "prisma_findUnique rows i = first_of (filter (eq_id i) rows)"

definition names_no_column :: "UpdateTodoInput \<Rightarrow> bool" where
  "names_no_column data =
     (u_title data = None \<and> u_description data = None \<and> u_completed data = None
      \<and> u_priority data = None \<and> u_dueDate data = None \<and> u_tags data = None
      \<and> u_metadata data = None)"

definition prisma_update ::
  "Todo list \<Rightarrow> date \<Rightarrow> string \<Rightarrow> UpdateTodoInput \<Rightarrow> (exception + Todo) \<times> Todo list" where
  "prisma_update rows now i data =
     (case first_of (filter (eq_id i) rows) of
        None \<Rightarrow> (Inl (PrismaClientKnownRequestError ''P2025''), rows)
      | Some row \<Rightarrow>
          (if names_no_column data then (Inr row, rows)
           else
             (let updated = (set_columns data row)\<lparr>updatedAt := now\<rparr>
              in (Inr updated, map (\<lambda>r. if eq_id i r then updated else r) rows))))"

definition prisma_delete :: "Todo list \<Rightarrow> string \<Rightarrow> (exception + Todo) \<times> Todo list" where
  "prisma_delete rows i =
     (case first_of (filter (eq_id i) rows) of
        None \<Rightarrow> (Inl (PrismaClientKnownRequestError ''P2025''), rows)
      | Some row \<Rightarrow> (Inr row, filter (\<lambda>r. \<not> eq_id i r) rows))"

text \<open>The list filter \<^verbatim>\<open>hasSome\<close>: at least one of the given values is in the column.\<close>

definition hasSome :: "string list \<Rightarrow> string list \<Rightarrow> bool" where
  "hasSome col vals = list_ex (\<lambda>v. v \<in> set col) vals"

subsection \<open>PrismaTodoRepository (prisma-todo.repository.ts)\<close>

definition PrismaTodoRepository_create ::
  "Todo list \<Rightarrow> string \<Rightarrow> date \<Rightarrow> CreateTodoInput \<Rightarrow> (exception + Todo option) \<times> Todo list" where
  "PrismaTodoRepository_create rows newId now data =
     (case prisma_create rows
             \<lparr>v_id = newId, v_title = c_title data, v_description = c_description data,
              v_completed = c_completed data, v_priority = c_priority data,
              v_dueDate = c_dueDate data,
              v_tags = Some (case c_tags data of None \<Rightarrow> [] | Some ts \<Rightarrow> ts),
              v_metadata = c_metadata data, v_createdAt = now, v_updatedAt = now\<rparr> of
        (Inl e, rows') \<Rightarrow> (Inl e, rows')
      | (Inr created, rows') \<Rightarrow> (Inr (Some (created\<lparr>metadata := metadata created\<rparr>)), rows'))"

definition PrismaTodoRepository_findAll :: "Todo list \<Rightarrow> Todo list" where
  "PrismaTodoRepository_findAll rows =
     map (\<lambda>todo. todo\<lparr>metadata := metadata todo\<rparr>) (prisma_findMany_desc rows (\<lambda>_. True))"

definition PrismaTodoRepository_findById :: "Todo list \<Rightarrow> string \<Rightarrow> exception + Todo option" where
  "PrismaTodoRepository_findById rows i =
     (case prisma_findUnique rows i of
        None \<Rightarrow> Inr None
      | Some todo \<Rightarrow> Inr (Some (todo\<lparr>metadata := metadata todo\<rparr>)))"

definition PrismaTodoRepository_update ::
  "Todo list \<Rightarrow> date \<Rightarrow> string \<Rightarrow> UpdateTodoInput \<Rightarrow> (exception + Todo option) \<times> Todo list" where
  "PrismaTodoRepository_update rows now i data =
     (case prisma_update rows now i data of
        (Inl e, rows') \<Rightarrow> (Inl e, rows')
      | (Inr updated, rows') \<Rightarrow> (Inr (Some (updated\<lparr>metadata := metadata updated\<rparr>)), rows'))"

definition PrismaTodoRepository_delete ::
  "Todo list \<Rightarrow> string \<Rightarrow> (exception + Todo option) \<times> Todo list" where
  "PrismaTodoRepository_delete rows i =
     (case prisma_delete rows i of
        (Inl e, rows') \<Rightarrow> (Inl e, rows')
      | (Inr deleted, rows') \<Rightarrow> (Inr (Some (deleted\<lparr>metadata := metadata deleted\<rparr>)), rows'))"

definition PrismaTodoRepository_findByTags :: "Todo list \<Rightarrow> string list \<Rightarrow> Todo list" where
  "PrismaTodoRepository_findByTags rows tgs =
     map (\<lambda>todo. todo\<lparr>metadata := metadata todo\<rparr>)
       (prisma_findMany_desc rows (\<lambda>row. hasSome (tags row) tgs))"

section \<open>The MongoDB collection behind Mongoose\<close>

text \<open>
  The collection \<^verbatim>\<open>todos\<close> is the list of its documents (\<^verbatim>\<open>todo.schema.ts\<close>); \<^verbatim>\<open>cuid\<close>
  carries a unique index. \<^verbatim>\<open>findOne\<close> and \<^verbatim>\<open>findOneAndDelete\<close> yield \<^verbatim>\<open>null\<close> when no
  document matches; the query operator \<^verbatim>\<open>$in\<close> on an array field matches when one
  element of the field is among the given values.
\<close>

record TodoDocument =
  cuid :: string
  doc_title :: string
  doc_description :: "string option"
  doc_completed :: bool
  doc_priority :: string
  doc_tags :: "string list"
  doc_dueDate :: "date option"
  doc_createdAt :: date
  doc_updatedAt :: date

definition eq_cuid :: "string \<Rightarrow> TodoDocument \<Rightarrow> bool" where
  "eq_cuid i doc = (cuid doc = i)"

definition mongoose_find_desc :: "TodoDocument list \<Rightarrow> (TodoDocument \<Rightarrow> bool) \<Rightarrow> TodoDocument list" where
  "mongoose_find_desc docs cond = orderBy_desc doc_createdAt (filter cond docs)"

definition mongoose_findOne :: "TodoDocument list \<Rightarrow> (TodoDocument \<Rightarrow> bool) \<Rightarrow> TodoDocument option" where
  "mongoose_findOne docs cond = first_of (filter cond docs)"

definition mongoose_findOneAndDelete ::
  "TodoDocument list \<Rightarrow> (TodoDocument \<Rightarrow> bool) \<Rightarrow> TodoDocument option \<times> TodoDocument list" where
  "mongoose_findOneAndDelete docs cond =
     (case first_of (filter cond docs) of
        None \<Rightarrow> (None, docs)
      | Some doc \<Rightarrow> (Some doc, remove1 doc docs))"

definition in_values :: "string list \<Rightarrow> string list \<Rightarrow> bool" where
  "in_values fld vals = list_ex (\<lambda>x. x \<in> set vals) fld"

subsection \<open>MongooseTodoRepository (mongoose-todo.repository.ts)\<close>

definition mapDocumentToEntity :: "TodoDocument \<Rightarrow> Todo" where
  "mapDocumentToEntity doc =
     \<lparr>id' = cuid doc, title = doc_title doc, description = doc_description doc,
      completed = doc_completed doc, priority = Some (doc_priority doc),
      dueDate = doc_dueDate doc, tags = doc_tags doc, metadata = None,
      createdAt = doc_createdAt doc, updatedAt = doc_updatedAt doc\<rparr>"

definition MongooseTodoRepository_findAll :: "TodoDocument list \<Rightarrow> Todo list" where
  "MongooseTodoRepository_findAll docs =
     map mapDocumentToEntity (mongoose_find_desc docs (\<lambda>_. True))"

definition MongooseTodoRepository_findById ::
  "TodoDocument list \<Rightarrow> string \<Rightarrow> exception + Todo option" where
  "MongooseTodoRepository_findById docs i =
     (case mongoose_findOne docs (eq_cuid i) of
        None \<Rightarrow> Inr None
      | Some todo \<Rightarrow> Inr (Some (mapDocumentToEntity todo)))"

definition MongooseTodoRepository_delete ::
  "TodoDocument list \<Rightarrow> string \<Rightarrow> (exception + Todo option) \<times> TodoDocument list" where
  "MongooseTodoRepository_delete docs i =
     (case mongoose_findOneAndDelete docs (eq_cuid i) of
        (None, docs') \<Rightarrow> (Inl (Error (''Todo with id '' @ i @ '' not found'')), docs')
      | (Some deleted, docs') \<Rightarrow> (Inr (Some (mapDocumentToEntity deleted)), docs'))"

definition MongooseTodoRepository_findByTags :: "TodoDocument list \<Rightarrow> string list \<Rightarrow> Todo list" where
  "MongooseTodoRepository_findByTags docs tgs =
     map mapDocumentToEntity (mongoose_find_desc docs (\<lambda>doc. in_values (doc_tags doc) tgs))"

section \<open>UnifiedErrorTrackingService (unified-error-tracking.service.ts)\<close>

text \<open>
  The three injected vendor services are named by a datatype; what their
  \<^verbatim>\<open>captureException\<close> does is a parameter \<open>services\<close> of the model: for each service,
  error and metadata it either returns or throws. The logger's output is the list of
  entries written by the call.
\<close>

datatype ErrorTrackingService = bugsnagService | sentryService | postHogService

datatype LogEntry =
    logger_log string
  | logger_debug string
  | logger_error string exception

definition isErrorTrackingEnabled :: "FeatureFlagsConfig \<Rightarrow> bool" where
  "isErrorTrackingEnabled config = (errorTracking config \<noteq> ErrorTracking_NONE)"

definition getErrorTrackingProvider :: "FeatureFlagsConfig \<Rightarrow> string" where
  "getErrorTrackingProvider config = errorTracking config"

definition initializeService :: "FeatureFlagsConfig \<Rightarrow> ErrorTrackingService option \<times> LogEntry list" where
  "initializeService featureFlags =
     (if \<not> isErrorTrackingEnabled featureFlags
      then (None, [logger_log ''Error tracking is disabled via feature flags''])
      else
        (let provider = getErrorTrackingProvider featureFlags in
         if provider = BUGSNAG
         then (Some bugsnagService,
               [logger_log (''Initialized error tracking with provider: '' @ provider)])
         else if provider = SENTRY
         then (Some sentryService,
               [logger_log (''Initialized error tracking with provider: '' @ provider)])
         else if provider = POSTHOG
         then (Some postHogService,
               [logger_log (''Initialized error tracking with provider: '' @ provider)])
         else (None, [logger_log ''No error tracking provider configured''])))"

definition captureException ::
  "(ErrorTrackingService \<Rightarrow> 'e \<Rightarrow> 'm option \<Rightarrow> exception + unit) \<Rightarrow> ErrorTrackingService option
     \<Rightarrow> 'e \<Rightarrow> 'm option \<Rightarrow> (exception + unit) \<times> LogEntry list" where
  "captureException services activeService err meta =
     (case activeService of
        None \<Rightarrow> (Inr (), [logger_debug ''No error tracking service available''])
      | Some svc \<Rightarrow>
          (case services svc err meta of
             Inr _ \<Rightarrow> (Inr (), [])
           | Inl thrown \<Rightarrow> (Inr (), [logger_error ''Failed to capture exception:'' thrown])))"

section \<open>The properties in the specification's words\<close>

text \<open>
  The seven enumerated options with their legal sets and defaults, the options whose
  effective value is outside its legal set, and the message that names one of them.
\<close>

definition provider_options :: "(string \<times> string list \<times> string) list" where
  "provider_options =
     [(''DATABASE_PROVIDER'', VALID_PROVIDERS_DATABASE, PRISMA_POSTGRESQL),
      (''ERROR_TRACKING_PROVIDER'', VALID_PROVIDERS_ERROR_TRACKING, ErrorTracking_NONE),
      (''AUTH_PROVIDER'', VALID_PROVIDERS_AUTH, COMPOSITE),
      (''CACHE_PROVIDER'', VALID_PROVIDERS_CACHE, REDIS),
      (''DOCUMENTATION_PROVIDER'', VALID_PROVIDERS_DOCUMENTATION, SWAGGER),
      (''LOGGING_PROVIDER'', VALID_PROVIDERS_LOGGING, Logging_BASIC),
      (''PERFORMANCE_PROVIDER'', VALID_PROVIDERS_PERFORMANCE, Performance_BASIC)]"

definition is_invalid :: "config_source \<Rightarrow> string \<times> string list \<times> string \<Rightarrow> bool" where
  "is_invalid env opt =
     (case opt of (envVar, validOptions, defaultValue) \<Rightarrow>
        configService_get_default env envVar defaultValue \<notin> set validOptions)"

definition invalid_options :: "config_source \<Rightarrow> (string \<times> string list \<times> string) list" where
  "invalid_options env = filter (is_invalid env) provider_options"

definition invalid_message :: "config_source \<Rightarrow> string \<times> string list \<times> string \<Rightarrow> string" where
  "invalid_message env opt =
     (case opt of (envVar, validOptions, defaultValue) \<Rightarrow>
        ''Invalid '' @ envVar @ '': '' @ dquote
          @ configService_get_default env envVar defaultValue @ dquote
          @ ''. Valid options: '' @ join validOptions '', '')"

text \<open>The option values in effect: what is set, or else the default.\<close>

definition selected :: "config_source \<Rightarrow> FeatureFlagsConfig" where
  "selected env =
     \<lparr>database = configService_get_default env ''DATABASE_PROVIDER'' PRISMA_POSTGRESQL,
      errorTracking = configService_get_default env ''ERROR_TRACKING_PROVIDER'' ErrorTracking_NONE,
      auth = configService_get_default env ''AUTH_PROVIDER'' COMPOSITE,
      cache = configService_get_default env ''CACHE_PROVIDER'' REDIS,
      documentation = configService_get_default env ''DOCUMENTATION_PROVIDER'' SWAGGER,
      logging = configService_get_default env ''LOGGING_PROVIDER'' Logging_BASIC,
      performance = configService_get_default env ''PERFORMANCE_PROVIDER'' Performance_BASIC\<rparr>"

text \<open>The cross-field rules that a configuration violates, in the order they are checked.\<close>

definition cross_field_violations :: "config_source \<Rightarrow> string list" where
  "cross_field_violations env =
     (if database (selected env) = MONGOOSE_MONGODB \<and> falsy (configService_get env ''MONGODB_URL'')
      then [MONGODB_URL_required] else [])
     @ (if (database (selected env) = PRISMA_POSTGRESQL \<or> database (selected env) = DRIZZLE_POSTGRESQL)
           \<and> falsy (configService_get env ''DATABASE_URL'')
        then [DATABASE_URL_required] else [])
     @ (if cache (selected env) = REDIS \<and> falsy (configService_get env ''REDIS_HOST'')
        then [REDIS_HOST_required] else [])"

text \<open>The seven validations as one traversal of the option table; used in the proofs only.\<close>

fun validate_each ::
  "config_source \<Rightarrow> (string \<times> string list \<times> string) list \<Rightarrow> exception + string list" where
  "validate_each env [] = Inr []"
| "validate_each env ((envVar, validOptions, defaultValue) # opts) =
     and_then (getValidatedProvider env envVar validOptions defaultValue) (\<lambda>v.
     and_then (validate_each env opts) (\<lambda>vs. Inr (v # vs)))"

text \<open>Any-match of two tag lists, and newest-first order of a result.\<close>

definition shares_a_tag :: "string list \<Rightarrow> string list \<Rightarrow> bool" where
  "shares_a_tag ts tgs = (set ts \<inter> set tgs \<noteq> {})"

definition newest_first :: "Todo list \<Rightarrow> bool" where
  "newest_first todos = sorted (rev (map createdAt todos))"

section \<open>Sample configurations and stores\<close>

definition two_invalid_options :: config_source where
  "two_invalid_options =
     [''DATABASE_PROVIDER'' \<mapsto> ''sqlite'', ''CACHE_PROVIDER'' \<mapsto> ''memcached'']"

definition mongoose_with_memcached :: config_source where
  "mongoose_with_memcached =
     [''DATABASE_PROVIDER'' \<mapsto> ''mongoose-mongodb'', ''CACHE_PROVIDER'' \<mapsto> ''memcached'']"

definition mongoose_without_urls :: config_source where
  "mongoose_without_urls = [''DATABASE_PROVIDER'' \<mapsto> ''mongoose-mongodb'']"

definition todo_a :: Todo where
  "todo_a = \<lparr>id' = ''a'', title = ''first'', description = None, completed = False,
             priority = Some ''medium'', dueDate = None, tags = [''home''], metadata = None,
             createdAt = 1000, updatedAt = 1000\<rparr>"

definition todo_b :: Todo where
  "todo_b = \<lparr>id' = ''b'', title = ''second'', description = None, completed = True,
             priority = Some ''high'', dueDate = None, tags = [''work'', ''home''], metadata = None,
             createdAt = 2000, updatedAt = 2500\<rparr>"

definition doc_a :: TodoDocument where
  "doc_a = \<lparr>cuid = ''a'', doc_title = ''first'', doc_description = None, doc_completed = False,
            doc_priority = ''medium'', doc_tags = [''home''], doc_dueDate = None,
            doc_createdAt = 1000, doc_updatedAt = 1000\<rparr>"

definition doc_b :: TodoDocument where
  "doc_b = \<lparr>cuid = ''b'', doc_title = ''second'', doc_description = None, doc_completed = True,
            doc_priority = ''high'', doc_tags = [''work'', ''home''], doc_dueDate = None,
            doc_createdAt = 2000, doc_updatedAt = 2500\<rparr>"

definition title_only :: CreateTodoInput where
  "title_only = \<lparr>c_title = ''Learn X'', c_description = None, c_completed = None,
                 c_priority = None, c_dueDate = None, c_tags = None, c_metadata = None\<rparr>"

definition empty_patch :: UpdateTodoInput where
  "empty_patch = \<lparr>u_title = None, u_description = None, u_completed = None, u_priority = None,
                  u_dueDate = None, u_tags = None, u_metadata = None\<rparr>"


definition untitled :: CreateTodoInput where
  "untitled = \<lparr>c_title = [], c_description = None, c_completed = None,
               c_priority = None, c_dueDate = None, c_tags = None, c_metadata = None\<rparr>"

definition sentry_selected :: FeatureFlagsConfig where
  "sentry_selected =
     \<lparr>database = PRISMA_POSTGRESQL, errorTracking = SENTRY, auth = COMPOSITE, cache = MEMORY,
      documentation = SWAGGER, logging = Logging_BASIC, performance = Performance_BASIC\<rparr>"

definition failing_services ::
  "ErrorTrackingService \<Rightarrow> string \<Rightarrow> json_record option \<Rightarrow> exception + unit" where
  "failing_services svc err meta = Inl (Error ''socket hang up'')"

section \<open>Auxiliary facts\<close>

lemmas provider_defs =
  PRISMA_POSTGRESQL_def DRIZZLE_POSTGRESQL_def MONGOOSE_MONGODB_def
  BUGSNAG_def SENTRY_def POSTHOG_def ErrorTracking_NONE_def
  COMPOSITE_def BEARER_ONLY_def API_KEY_ONLY_def Auth_NONE_def
  REDIS_def MEMORY_def Cache_NONE_def SWAGGER_def Documentation_NONE_def
  Logging_DETAILED_def Logging_BASIC_def Logging_NONE_def
  Performance_FULL_def Performance_BASIC_def Performance_NONE_def
  VALID_PROVIDERS_DATABASE_def VALID_PROVIDERS_ERROR_TRACKING_def VALID_PROVIDERS_AUTH_def
  VALID_PROVIDERS_CACHE_def VALID_PROVIDERS_DOCUMENTATION_def VALID_PROVIDERS_LOGGING_def
  VALID_PROVIDERS_PERFORMANCE_def


lemma metadata_update_id: "(\<lambda>todo::Todo. todo\<lparr>metadata := metadata todo\<rparr>) = (\<lambda>todo. todo)"
  by (rule ext) simp

lemma absent_id: "i \<notin> set (map id' rows) \<Longrightarrow> filter (eq_id i) rows = []"
  by (auto simp: eq_id_def filter_empty_conv)

lemma absent_cuid: "i \<notin> set (map cuid docs) \<Longrightarrow> filter (eq_cuid i) docs = []"
  by (auto simp: eq_cuid_def filter_empty_conv)

lemma mset_orderBy_desc: "mset (orderBy_desc col rows) = mset rows"
  by (simp add: orderBy_desc_def)

lemma mset_orderBy_asc: "mset (orderBy_asc col rows) = mset rows"
  by (simp add: orderBy_asc_def)

lemma orderBy_desc_newest_first: "sorted (rev (map col (orderBy_desc col rows)))"
  by (simp add: orderBy_desc_def rev_map [symmetric])

subsection \<open>The seven enumerated options\<close>

lemma validate_each_first_invalid:
  "filter (is_invalid env) opts = opt # rest \<Longrightarrow>
   validate_each env opts = Inl (Error (invalid_message env opt))"
proof (induction opts)
  case Nil
  then show ?case by simp
next
  case (Cons o1 opts)
  obtain k vs d where o1: "o1 = (k, vs, d)" by (cases o1)
  show ?case
  proof (cases "is_invalid env o1")
    case True
    with Cons.prems have "opt = o1" by simp
    with True o1 show ?thesis
      by (simp add: is_invalid_def invalid_message_def getValidatedProvider_def)
  next
    case False
    with Cons.prems have "filter (is_invalid env) opts = opt # rest" by simp
    from Cons.IH [OF this] False o1 show ?thesis
      by (simp add: is_invalid_def getValidatedProvider_def)
  qed
qed

lemma validate_each_all_valid:
  "filter (is_invalid env) opts = [] \<Longrightarrow>
   validate_each env opts =
     Inr (map (\<lambda>(envVar, validOptions, defaultValue).
                 configService_get_default env envVar defaultValue) opts)"
proof (induction opts)
  case Nil
  then show ?case by simp
next
  case (Cons o1 opts)
  obtain k vs d where o1: "o1 = (k, vs, d)" by (cases o1)
  from Cons.prems have v: "\<not> is_invalid env o1" and r: "filter (is_invalid env) opts = []"
    by (simp_all split: if_splits)
  from Cons.IH [OF r] v o1 show ?case
    by (simp add: is_invalid_def getValidatedProvider_def)
qed

lemma loadAndValidateConfig_validate_each:
  "loadAndValidateConfig env =
     and_then (validate_each env provider_options) (\<lambda>vs.
       and_then (validateConfiguration env (selected env)) (\<lambda>_. Inr (selected env)))"
  unfolding loadAndValidateConfig_def provider_options_def selected_def
  by (simp add: getValidatedProvider_def Let_def)

lemma valid_provider_nonempty:
  "v \<in> set VALID_PROVIDERS_DATABASE \<Longrightarrow> v \<noteq> []"
  "v \<in> set VALID_PROVIDERS_ERROR_TRACKING \<Longrightarrow> v \<noteq> []"
  "v \<in> set VALID_PROVIDERS_AUTH \<Longrightarrow> v \<noteq> []"
  "v \<in> set VALID_PROVIDERS_CACHE \<Longrightarrow> v \<noteq> []"
  "v \<in> set VALID_PROVIDERS_DOCUMENTATION \<Longrightarrow> v \<noteq> []"
  "v \<in> set VALID_PROVIDERS_LOGGING \<Longrightarrow> v \<noteq> []"
  "v \<in> set VALID_PROVIDERS_PERFORMANCE \<Longrightarrow> v \<noteq> []"
  by (auto simp: provider_defs)

text \<open>
  Once every option is legal, the loop over \<^verbatim>\<open>Object.entries(config)\<close> finds nothing:
  no legal value is the empty string.
\<close>

lemma all_valid_no_missing_provider:
  assumes "invalid_options env = []"
  shows "concat (map (\<lambda>(feature, provider).
                       if provider = []
                       then [''Feature '' @ dquote @ feature @ dquote @ '' has no provider selected'']
                       else []) (entries (selected env))) = []"
proof -
  from assms have "\<forall>opt \<in> set provider_options. \<not> is_invalid env opt"
    by (simp add: invalid_options_def filter_empty_conv)
  then show ?thesis
    by (simp add: provider_options_def is_invalid_def entries_def selected_def valid_provider_nonempty)
qed

lemma validateConfiguration_all_valid:
  assumes "invalid_options env = []"
  shows "validateConfiguration env (selected env) =
           (if cross_field_violations env = [] then Inr ()
            else Inl (Error (validation_failed (cross_field_violations env))))"
  unfolding validateConfiguration_def all_valid_no_missing_provider [OF assms] cross_field_violations_def
  by (simp add: Let_def)

lemma FeatureFlagsService_all_valid:
  assumes "invalid_options env = []"
  shows "FeatureFlagsService env =
           (if cross_field_violations env = [] then Inr (selected env)
            else Inl (Error (validation_failed (cross_field_violations env))))"
proof -
  from assms have "validate_each env provider_options =
      Inr (map (\<lambda>(envVar, validOptions, defaultValue).
                 configService_get_default env envVar defaultValue) provider_options)"
    by (simp add: invalid_options_def validate_each_all_valid)
  then show ?thesis
    by (simp add: FeatureFlagsService_def loadAndValidateConfig_validate_each
        validateConfiguration_all_valid [OF assms])
qed

section \<open>Feature-flag validation\<close>

text \<open>
  Claim C1, as the code has it: when one or more of the seven enumerated options holds a
  value outside its legal set, constructing the FeatureFlagsService fails with the error
  that \<^verbatim>\<open>getValidatedProvider\<close> throws for the first such option in the order
  DATABASE_PROVIDER, ERROR_TRACKING_PROVIDER, AUTH_PROVIDER, CACHE_PROVIDER,
  DOCUMENTATION_PROVIDER, LOGGING_PROVIDER, PERFORMANCE_PROVIDER. The error names that
  option, its value and its legal set; later invalid options are not looked at.
\<close>

theorem C1_first_invalid_option_reported:
  assumes "invalid_options env = opt # rest"
  shows "FeatureFlagsService env = Inl (Error (invalid_message env opt))"
  using validate_each_first_invalid [of env provider_options opt rest] assms
  by (simp add: FeatureFlagsService_def loadAndValidateConfig_validate_each invalid_options_def)

text \<open>
  The theorem at a configuration with two invalid options, DATABASE_PROVIDER = sqlite and
  CACHE_PROVIDER = memcached.
\<close>

theorem C1_first_invalid_option_reported_witness:
  "invalid_options two_invalid_options =
     [(''DATABASE_PROVIDER'', VALID_PROVIDERS_DATABASE, PRISMA_POSTGRESQL),
      (''CACHE_PROVIDER'', VALID_PROVIDERS_CACHE, REDIS)]
   \<and> FeatureFlagsService two_invalid_options =
       Inl (Error (''Invalid DATABASE_PROVIDER: '' @ dquote @ ''sqlite'' @ dquote
            @ ''. Valid options: prisma-postgresql, drizzle-postgresql, mongoose-mongodb''))"
proof -
  have i: "invalid_options two_invalid_options =
     [(''DATABASE_PROVIDER'', VALID_PROVIDERS_DATABASE, PRISMA_POSTGRESQL),
      (''CACHE_PROVIDER'', VALID_PROVIDERS_CACHE, REDIS)]"
    by (simp add: invalid_options_def provider_options_def is_invalid_def two_invalid_options_def
        configService_get_default_def provider_defs)
  from C1_first_invalid_option_reported [OF i] i show ?thesis
    by (simp add: invalid_message_def two_invalid_options_def configService_get_default_def
        provider_defs)
qed

text \<open>
  The same configuration against the claim as it was stated: CACHE_PROVIDER is invalid
  too, yet the error of the failed construction mentions neither its name nor its value.
\<close>

theorem C1_second_invalid_option_not_listed:
  "is_invalid two_invalid_options (''CACHE_PROVIDER'', VALID_PROVIDERS_CACHE, REDIS)
   \<and> FeatureFlagsService two_invalid_options =
       Inl (Error (''Invalid DATABASE_PROVIDER: '' @ dquote @ ''sqlite'' @ dquote
            @ ''. Valid options: prisma-postgresql, drizzle-postgresql, mongoose-mongodb''))
   \<and> \<not> sublist ''CACHE_PROVIDER'' (''Invalid DATABASE_PROVIDER: '' @ dquote @ ''sqlite'' @ dquote
            @ ''. Valid options: prisma-postgresql, drizzle-postgresql, mongoose-mongodb'')
   \<and> \<not> sublist ''memcached'' (''Invalid DATABASE_PROVIDER: '' @ dquote @ ''sqlite'' @ dquote
            @ ''. Valid options: prisma-postgresql, drizzle-postgresql, mongoose-mongodb'')"
  by code_simp

text \<open>
  Claim C8, as the code has it: constructing the FeatureFlagsService fails whenever a
  required cross-field combination is missing (database provider mongoose-mongodb without
  MONGODB_URL, a PostgreSQL database provider without DATABASE_URL, cache provider redis
  without REDIS_HOST). When the seven enumerated options are all legal, the failure
  carries one message that lists every violated cross-field rule; when one of them is
  not, the failure is the error of the first illegal option and lists no cross-field
  rule.
\<close>

theorem C8_cross_field_rules_aggregated:
  assumes "cross_field_violations env \<noteq> []"
  shows "(\<exists>e. FeatureFlagsService env = Inl e)
         \<and> (invalid_options env = [] \<longrightarrow>
              FeatureFlagsService env = Inl (Error (validation_failed (cross_field_violations env))))
         \<and> (\<forall>opt rest. invalid_options env = opt # rest \<longrightarrow>
              FeatureFlagsService env = Inl (Error (invalid_message env opt)))"
proof (cases "invalid_options env")
  case Nil
  with assms show ?thesis by (simp add: FeatureFlagsService_all_valid)
next
  case (Cons opt rest)
  then have "validate_each env provider_options = Inl (Error (invalid_message env opt))"
    by (simp add: invalid_options_def validate_each_first_invalid)
  with Cons show ?thesis
    by (simp add: FeatureFlagsService_def loadAndValidateConfig_validate_each)
qed

text \<open>
  The theorem at two configurations. The first selects mongoose-mongodb and leaves the
  cache provider at its default redis, with neither MONGODB_URL nor REDIS_HOST set: both
  rules are reported in one message. The second selects mongoose-mongodb without
  MONGODB_URL and the illegal cache provider memcached: the error is that of
  CACHE_PROVIDER.
\<close>

theorem C8_cross_field_rules_aggregated_witness:
  "cross_field_violations mongoose_without_urls = [MONGODB_URL_required, REDIS_HOST_required]
   \<and> invalid_options mongoose_without_urls = []
   \<and> FeatureFlagsService mongoose_without_urls =
       Inl (Error (''Feature flag validation failed:'' @ newline
              @ ''  - MONGODB_URL is required when using mongoose-mongodb database provider'' @ newline
              @ ''  - REDIS_HOST is required when using redis cache provider''))
   \<and> cross_field_violations mongoose_with_memcached = [MONGODB_URL_required]
   \<and> invalid_options mongoose_with_memcached = [(''CACHE_PROVIDER'', VALID_PROVIDERS_CACHE, REDIS)]
   \<and> FeatureFlagsService mongoose_with_memcached =
       Inl (Error (''Invalid CACHE_PROVIDER: '' @ dquote @ ''memcached'' @ dquote
              @ ''. Valid options: redis, memory, none''))"
proof -
  have v: "cross_field_violations mongoose_without_urls = [MONGODB_URL_required, REDIS_HOST_required]"
    by (simp add: cross_field_violations_def selected_def mongoose_without_urls_def
        configService_get_default_def configService_get_def falsy_def provider_defs)
  have i: "invalid_options mongoose_without_urls = []"
    by (simp add: invalid_options_def provider_options_def is_invalid_def mongoose_without_urls_def
        configService_get_default_def provider_defs)
  from v have n: "cross_field_violations mongoose_without_urls \<noteq> []" by simp
  have v': "cross_field_violations mongoose_with_memcached = [MONGODB_URL_required]"
    by (simp add: cross_field_violations_def selected_def mongoose_with_memcached_def
        configService_get_default_def configService_get_def falsy_def provider_defs)
  have i': "invalid_options mongoose_with_memcached
              = [(''CACHE_PROVIDER'', VALID_PROVIDERS_CACHE, REDIS)]"
    by (simp add: invalid_options_def provider_options_def is_invalid_def
        mongoose_with_memcached_def configService_get_default_def provider_defs)
  from v' have n': "cross_field_violations mongoose_with_memcached \<noteq> []" by simp
  have first: "FeatureFlagsService mongoose_without_urls =
       Inl (Error (''Feature flag validation failed:'' @ newline
              @ ''  - MONGODB_URL is required when using mongoose-mongodb database provider'' @ newline
              @ ''  - REDIS_HOST is required when using redis cache provider''))"
    using C8_cross_field_rules_aggregated [OF n] i v
    by (simp add: validation_failed_def MONGODB_URL_required_def REDIS_HOST_required_def)
  have second: "FeatureFlagsService mongoose_with_memcached =
       Inl (Error (''Invalid CACHE_PROVIDER: '' @ dquote @ ''memcached'' @ dquote
              @ ''. Valid options: redis, memory, none''))"
    using C8_cross_field_rules_aggregated [OF n'] i'
    by (simp add: invalid_message_def mongoose_with_memcached_def configService_get_default_def
        provider_defs)
  from v i first v' i' second show ?thesis by simp
qed

text \<open>
  Against the claim as it was stated: with the database provider mongoose-mongodb, no
  MONGODB_URL and the illegal cache provider memcached, the rule on MONGODB_URL is
  violated, yet construction fails with the error of CACHE_PROVIDER, which mentions no
  cross-field rule.
\<close>

theorem C8_illegal_option_hides_cross_field_rules:
  "cross_field_violations mongoose_with_memcached = [MONGODB_URL_required]
   \<and> FeatureFlagsService mongoose_with_memcached =
       Inl (Error (''Invalid CACHE_PROVIDER: '' @ dquote @ ''memcached'' @ dquote
            @ ''. Valid options: redis, memory, none''))
   \<and> \<not> sublist ''MONGODB_URL'' (''Invalid CACHE_PROVIDER: '' @ dquote @ ''memcached'' @ dquote
            @ ''. Valid options: redis, memory, none'')"
  by code_simp

section \<open>Repository contract\<close>

subsection \<open>delete\<close>

lemma PrismaTodoRepository_delete_absent:
  "i \<notin> set (map id' rows) \<Longrightarrow>
   PrismaTodoRepository_delete rows i = (Inl (PrismaClientKnownRequestError ''P2025''), rows)"
  by (simp add: PrismaTodoRepository_delete_def prisma_delete_def absent_id first_of_def)

lemma MongooseTodoRepository_delete_absent:
  "i \<notin> set (map cuid docs) \<Longrightarrow>
   MongooseTodoRepository_delete docs i
     = (Inl (Error (''Todo with id '' @ i @ '' not found'')), docs)"
  by (simp add: MongooseTodoRepository_delete_def mongoose_findOneAndDelete_def absent_cuid
      first_of_def)

lemma DrizzleTodoRepository_delete_absent:
  "i \<notin> set (map id' rows) \<Longrightarrow> DrizzleTodoRepository_delete rows i = (Inr None, rows)"
  by (auto simp: DrizzleTodoRepository_delete_def drizzle_delete_returning_def absent_id
      first_of_def eq_id_def filter_id_conv)

text \<open>
  Claim C2 asks that delete on an id that is not in the store fail with a not-found
  condition in every repository. The Prisma and Mongoose repositories do (the two lemmas
  above). The Drizzle repository does not: on the table holding only the row \<open>a\<close>,
  deleting the id \<open>missing\<close> returns \<^verbatim>\<open>undefined\<close> as if it had succeeded and leaves
  the table as it was.
\<close>

theorem C2_drizzle_delete_absent_returns_undefined:
  "DrizzleTodoRepository_delete [todo_a] ''missing'' = (Inr None, [todo_a])"
  by (simp add: DrizzleTodoRepository_delete_def drizzle_delete_returning_def first_of_def
      eq_id_def todo_a_def)

subsection \<open>findAll\<close>

lemma PrismaTodoRepository_findAll_newest_first:
  "mset (PrismaTodoRepository_findAll rows) = mset rows
   \<and> newest_first (PrismaTodoRepository_findAll rows)"
  by (simp add: PrismaTodoRepository_findAll_def prisma_findMany_desc_def metadata_update_id
      newest_first_def orderBy_desc_newest_first mset_orderBy_desc)

lemma createdAt_mapDocumentToEntity: "createdAt \<circ> mapDocumentToEntity = doc_createdAt"
  by (rule ext) (simp add: mapDocumentToEntity_def)

lemma MongooseTodoRepository_findAll_newest_first:
  "mset (MongooseTodoRepository_findAll docs) = image_mset mapDocumentToEntity (mset docs)
   \<and> newest_first (MongooseTodoRepository_findAll docs)"
  by (simp add: MongooseTodoRepository_findAll_def mongoose_find_desc_def
      newest_first_def createdAt_mapDocumentToEntity orderBy_desc_newest_first mset_orderBy_desc)

text \<open>
  Claim C3 asks that findAll return all records newest-created first in every repository.
  The Prisma and Mongoose repositories do (the two lemmas above). The Drizzle repository
  orders by \<^verbatim>\<open>createdAt\<close> ascending: on a table holding \<open>b\<close> (created at 2000) and \<open>a\<close>
  (created at 1000) it returns \<open>a\<close> before \<open>b\<close>, oldest first.
\<close>

theorem C3_drizzle_findAll_oldest_first:
  "DrizzleTodoRepository_findAll [todo_b, todo_a] = [todo_a, todo_b]
   \<and> map createdAt (DrizzleTodoRepository_findAll [todo_b, todo_a]) = [1000, 2000]
   \<and> \<not> newest_first (DrizzleTodoRepository_findAll [todo_b, todo_a])"
  by (simp add: DrizzleTodoRepository_findAll_def orderBy_asc_def newest_first_def
      todo_a_def todo_b_def)

subsection \<open>create\<close>

lemma CreateTodoSchema_defaults:
  assumes "CreateTodoSchema input = Inr data"
  shows "c_completed data = Some (case c_completed input of None \<Rightarrow> False | Some b \<Rightarrow> b)"
    and "c_priority data = Some (case c_priority input of None \<Rightarrow> ''medium'' | Some p \<Rightarrow> p)"
    and "c_tags data = Some (case c_tags input of None \<Rightarrow> [] | Some ts \<Rightarrow> ts)"
  using assms by (auto simp: CreateTodoSchema_def Let_def split: if_splits)

lemma transform_body_accepts:
  "ZodValidationPipe_transform schema v \<lparr>arg_type = body, arg_data = d\<rparr> = Inr data
   \<Longrightarrow> schema v = Inr data"
  by (auto simp: ZodValidationPipe_transform_def split: sum.splits thrown.splits)

text \<open>
  Claim C4: for every CreateTodoInput that the validation pipe accepts as a request body
  against CreateTodoSchema, creating the validated value (under an id not yet in the
  table) returns a Todo that has completed = false if the input omitted
  \<^verbatim>\<open>completed\<close>, priority = "medium" if it omitted \<^verbatim>\<open>priority\<close>, and tags = [] if it omitted
  \<^verbatim>\<open>tags\<close>. Shown for the Drizzle and the Prisma repository.
\<close>

theorem C4_create_fills_defaults:
  assumes "ZodValidationPipe_transform CreateTodoSchema input \<lparr>arg_type = body, arg_data = None\<rparr>
             = Inr data"
    and "newId \<notin> set (map id' rows)"
  shows "(\<exists>todo rows'.
            DrizzleTodoRepository_create rows newId now1 now2 data = (Inr (Some todo), rows')
            \<and> (c_completed input = None \<longrightarrow> completed todo = False)
            \<and> (c_priority input = None \<longrightarrow> priority todo = Some ''medium'')
            \<and> (c_tags input = None \<longrightarrow> tags todo = []))
         \<and> (\<exists>todo rows'.
            PrismaTodoRepository_create rows newId now data = (Inr (Some todo), rows')
            \<and> (c_completed input = None \<longrightarrow> completed todo = False)
            \<and> (c_priority input = None \<longrightarrow> priority todo = Some ''medium'')
            \<and> (c_tags input = None \<longrightarrow> tags todo = []))"
  using assms(2) CreateTodoSchema_defaults [OF transform_body_accepts [OF assms(1)]]
  by (simp add: DrizzleTodoRepository_create_def drizzle_insert_returning_def
      PrismaTodoRepository_create_def prisma_create_def first_of_def row_of_def)

text \<open>
  The theorem at the request body \<^verbatim>\<open>{"title": "Learn X"}\<close>, created under the id \<open>n1\<close>
  in a table that holds the row \<open>a\<close>.
\<close>

theorem C4_create_fills_defaults_witness:
  "ZodValidationPipe_transform CreateTodoSchema title_only \<lparr>arg_type = body, arg_data = None\<rparr> =
     Inr (title_only\<lparr>c_completed := Some False, c_priority := Some ''medium'', c_tags := Some []\<rparr>)
   \<and> ''n1'' \<notin> set (map id' [todo_a])
   \<and> c_completed title_only = None \<and> c_priority title_only = None \<and> c_tags title_only = None
   \<and> (\<exists>todo rows'.
         DrizzleTodoRepository_create [todo_a] ''n1'' 3000 3001
           (title_only\<lparr>c_completed := Some False, c_priority := Some ''medium'', c_tags := Some []\<rparr>)
           = (Inr (Some todo), rows')
         \<and> completed todo = False \<and> priority todo = Some ''medium'' \<and> tags todo = [])
   \<and> (\<exists>todo rows'.
         PrismaTodoRepository_create [todo_a] ''n1'' 3000
           (title_only\<lparr>c_completed := Some False, c_priority := Some ''medium'', c_tags := Some []\<rparr>)
           = (Inr (Some todo), rows')
         \<and> completed todo = False \<and> priority todo = Some ''medium'' \<and> tags todo = [])"
proof -
  have p: "ZodValidationPipe_transform CreateTodoSchema title_only \<lparr>arg_type = body, arg_data = None\<rparr> =
     Inr (title_only\<lparr>c_completed := Some False, c_priority := Some ''medium'', c_tags := Some []\<rparr>)"
    by (simp add: ZodValidationPipe_transform_def CreateTodoSchema_def title_only_def)
  have f: "''n1'' \<notin> set (map id' [todo_a])" by (simp add: todo_a_def)
  have o: "c_completed title_only = None \<and> c_priority title_only = None \<and> c_tags title_only = None"
    by (simp add: title_only_def)
  from C4_create_fills_defaults [OF p f, of 3000 3001 3000] p f o show ?thesis by simp
qed

subsection \<open>findById\<close>

text \<open>
  Claim C5: in every repository, findById on an id that is not in the store returns the
  not-found sentinel \<^verbatim>\<open>null\<close> and does not throw.
\<close>

theorem C5_findById_absent_returns_null:
  assumes "i \<notin> set (map id' rows)" and "i \<notin> set (map cuid docs)"
  shows "PrismaTodoRepository_findById rows i = Inr None
         \<and> DrizzleTodoRepository_findById rows i = Inr None
         \<and> MongooseTodoRepository_findById docs i = Inr None"
  using absent_id [OF assms(1)] absent_cuid [OF assms(2)]
  by (simp add: PrismaTodoRepository_findById_def DrizzleTodoRepository_findById_def
      MongooseTodoRepository_findById_def prisma_findUnique_def mongoose_findOne_def first_of_def)

text \<open>The theorem at the id \<open>zzz\<close> in stores that hold \<open>a\<close> and \<open>b\<close>.\<close>

theorem C5_findById_absent_returns_null_witness:
  "''zzz'' \<notin> set (map id' [todo_a, todo_b]) \<and> ''zzz'' \<notin> set (map cuid [doc_a, doc_b])
   \<and> PrismaTodoRepository_findById [todo_a, todo_b] ''zzz'' = Inr None
   \<and> DrizzleTodoRepository_findById [todo_a, todo_b] ''zzz'' = Inr None
   \<and> MongooseTodoRepository_findById [doc_a, doc_b] ''zzz'' = Inr None"
proof -
  have h1: "''zzz'' \<notin> set (map id' [todo_a, todo_b])" by (simp add: todo_a_def todo_b_def)
  have h2: "''zzz'' \<notin> set (map cuid [doc_a, doc_b])" by (simp add: doc_a_def doc_b_def)
  from C5_findById_absent_returns_null [OF h1 h2] h1 h2 show ?thesis by simp
qed

subsection \<open>update\<close>

lemma set_columns_empty_patch: "set_columns empty_patch row = row"
  by (simp add: set_columns_def empty_patch_def)

lemma filter_eq_id_present:
  assumes "row \<in> set rows" and "distinct (map id' rows)"
  shows "filter (eq_id (id' row)) rows = [row]"
  using assms
proof (induction rows)
  case Nil
  then show ?case by simp
next
  case (Cons r rows)
  show ?case
  proof (cases "r = row")
    case True
    with Cons.prems have "id' row \<notin> id' ` set rows" by simp
    then have "filter (eq_id (id' row)) rows = []"
      by (auto simp: eq_id_def filter_empty_conv image_iff)
    with True show ?thesis by (simp add: eq_id_def [abs_def])
  next
    case False
    with Cons.prems have "row \<in> set rows" and "distinct (map id' rows)" and "id' r \<noteq> id' row"
      by auto
    with Cons.IH show ?thesis by (simp add: eq_id_def [abs_def])
  qed
qed

text \<open>
  Claim C6, as the code has it: in the Drizzle repository, for every record present in
  the store (whose ids are distinct), update with the empty patch returns that record
  with updatedAt set to the clock reading taken by the update and every other field
  unchanged. The new updatedAt is strictly greater than the previous one whenever that
  clock reading is later than the previous updatedAt.
\<close>

theorem C6_update_empty_patch_sets_clock_reading:
  assumes "row \<in> set rows" and "distinct (map id' rows)"
  shows "fst (DrizzleTodoRepository_update rows now (id' row) empty_patch)
           = Inr (Some (row\<lparr>updatedAt := now\<rparr>))
         \<and> (updatedAt row < now \<longrightarrow> updatedAt row < updatedAt (row\<lparr>updatedAt := now\<rparr>))"
  using filter_eq_id_present [OF assms]
  by (simp add: DrizzleTodoRepository_update_def drizzle_update_returning_def
      first_of_def set_columns_empty_patch)

text \<open>The theorem at the row \<open>a\<close> (last updated at 1000) and the clock reading 3000.\<close>

theorem C6_update_empty_patch_sets_clock_reading_witness:
  "todo_a \<in> set [todo_a, todo_b] \<and> distinct (map id' [todo_a, todo_b])
   \<and> fst (DrizzleTodoRepository_update [todo_a, todo_b] 3000 ''a'' empty_patch)
       = Inr (Some (todo_a\<lparr>updatedAt := 3000\<rparr>))
   \<and> updatedAt todo_a < 3000"
proof -
  have m: "todo_a \<in> set [todo_a, todo_b]" by simp
  have d: "distinct (map id' [todo_a, todo_b])" by (simp add: todo_a_def todo_b_def)
  have i: "id' todo_a = ''a''" by (simp add: todo_a_def)
  have u: "updatedAt todo_a < 3000" by (simp add: todo_a_def)
  from C6_update_empty_patch_sets_clock_reading [OF m d, of 3000] m d u show ?thesis
    by (simp add: i)
qed

text \<open>
  The Prisma repository hands the empty patch to the client as it is and sets no
  updatedAt of its own, so the record comes back as it is stored, whatever the clock
  reads.
\<close>

lemma PrismaTodoRepository_update_empty_patch:
  assumes "row \<in> set rows" and "distinct (map id' rows)"
  shows "PrismaTodoRepository_update rows now (id' row) empty_patch = (Inr (Some row), rows)"
  using filter_eq_id_present [OF assms]
  by (simp add: PrismaTodoRepository_update_def prisma_update_def first_of_def
      names_no_column_def empty_patch_def)

text \<open>
  Against the claim as it was stated: the row \<open>a\<close> was last updated at 1000. In the
  Drizzle repository an update whose clock reading is 1000 again (the same millisecond)
  returns the record with updatedAt 1000; in the Prisma repository an update at the
  clock reading 3000 returns the record with updatedAt 1000 as well. Neither is strictly
  greater than before.
\<close>

theorem C6_update_within_same_millisecond:
  "updatedAt todo_a = 1000
   \<and> fst (DrizzleTodoRepository_update [todo_a] 1000 ''a'' empty_patch)
       = Inr (Some (todo_a\<lparr>updatedAt := 1000\<rparr>))
   \<and> \<not> updatedAt todo_a < updatedAt (todo_a\<lparr>updatedAt := 1000\<rparr>)
   \<and> fst (PrismaTodoRepository_update [todo_a] 3000 ''a'' empty_patch) = Inr (Some todo_a)
   \<and> \<not> updatedAt todo_a < updatedAt todo_a"
  by (simp add: DrizzleTodoRepository_update_def drizzle_update_returning_def
      PrismaTodoRepository_update_def prisma_update_def first_of_def set_columns_def
      names_no_column_def empty_patch_def eq_id_def todo_a_def)

subsection \<open>findByTags\<close>

lemma list_ex_shares: "list_ex (\<lambda>tag. tag \<in> set ts) tgs = shares_a_tag ts tgs"
  by (auto simp: shares_a_tag_def list_ex_iff)

lemma hasSome_shares: "hasSome ts tgs = shares_a_tag ts tgs"
  by (auto simp: hasSome_def shares_a_tag_def list_ex_iff)

lemma in_values_shares: "in_values ts tgs = shares_a_tag ts tgs"
  by (auto simp: in_values_def shares_a_tag_def list_ex_iff)

lemma tags_mapDocumentToEntity: "tags (mapDocumentToEntity doc) = doc_tags doc"
  by (simp add: mapDocumentToEntity_def)

lemma id_mapDocumentToEntity: "id' \<circ> mapDocumentToEntity = cuid"
  by (rule ext) (simp add: mapDocumentToEntity_def)

text \<open>
  Claim C7: in every repository, for every input tag list and every store, findByTags
  returns exactly the records whose tag list shares at least one element with the input
  list. The Mongoose repository returns, for each matching document, the entity that
  carries the document's fields: every entity it returns shares a tag with the input, and
  the ids it returns are the cuids of the matching documents. For the empty input list
  the result is empty in each repository.
\<close>

theorem C7_findByTags_any_match:
  "mset (DrizzleTodoRepository_findByTags rows tgs)
     = filter_mset (\<lambda>todo. shares_a_tag (tags todo) tgs) (mset rows)
   \<and> mset (PrismaTodoRepository_findByTags rows tgs)
     = filter_mset (\<lambda>todo. shares_a_tag (tags todo) tgs) (mset rows)
   \<and> mset (MongooseTodoRepository_findByTags docs tgs)
     = image_mset
         (\<lambda>doc. \<lparr>id' = cuid doc, title = doc_title doc, description = doc_description doc,
                  completed = doc_completed doc, priority = Some (doc_priority doc),
                  dueDate = doc_dueDate doc, tags = doc_tags doc, metadata = None,
                  createdAt = doc_createdAt doc, updatedAt = doc_updatedAt doc\<rparr>)
         (filter_mset (\<lambda>doc. shares_a_tag (doc_tags doc) tgs) (mset docs))
   \<and> (\<forall>todo \<in> set (MongooseTodoRepository_findByTags docs tgs). shares_a_tag (tags todo) tgs)
   \<and> mset (map id' (MongooseTodoRepository_findByTags docs tgs))
     = mset (map cuid (filter (\<lambda>doc. shares_a_tag (doc_tags doc) tgs) docs))
   \<and> DrizzleTodoRepository_findByTags rows [] = []
   \<and> PrismaTodoRepository_findByTags rows [] = []
   \<and> MongooseTodoRepository_findByTags docs [] = []"
proof -
  have sql: "mset (DrizzleTodoRepository_findByTags rows tgs)
       = filter_mset (\<lambda>todo. shares_a_tag (tags todo) tgs) (mset rows)
     \<and> mset (PrismaTodoRepository_findByTags rows tgs)
       = filter_mset (\<lambda>todo. shares_a_tag (tags todo) tgs) (mset rows)"
    by (simp add: DrizzleTodoRepository_findByTags_def PrismaTodoRepository_findByTags_def
        prisma_findMany_desc_def metadata_update_id list_ex_shares hasSome_shares
        mset_orderBy_desc mset_orderBy_asc)
  have mongo: "MongooseTodoRepository_findByTags docs tgs
       = map mapDocumentToEntity
           (orderBy_desc doc_createdAt (filter (\<lambda>doc. shares_a_tag (doc_tags doc) tgs) docs))"
    by (simp add: MongooseTodoRepository_findByTags_def mongoose_find_desc_def in_values_shares)
  have entities: "mset (MongooseTodoRepository_findByTags docs tgs)
       = image_mset
           (\<lambda>doc. \<lparr>id' = cuid doc, title = doc_title doc, description = doc_description doc,
                    completed = doc_completed doc, priority = Some (doc_priority doc),
                    dueDate = doc_dueDate doc, tags = doc_tags doc, metadata = None,
                    createdAt = doc_createdAt doc, updatedAt = doc_updatedAt doc\<rparr>)
           (filter_mset (\<lambda>doc. shares_a_tag (doc_tags doc) tgs) (mset docs))"
    by (simp add: mongo mset_orderBy_desc mapDocumentToEntity_def [abs_def])
  have shared: "\<forall>todo \<in> set (MongooseTodoRepository_findByTags docs tgs). shares_a_tag (tags todo) tgs"
    by (auto simp: mongo orderBy_desc_def tags_mapDocumentToEntity)
  have ids: "mset (map id' (MongooseTodoRepository_findByTags docs tgs))
       = mset (map cuid (filter (\<lambda>doc. shares_a_tag (doc_tags doc) tgs) docs))"
    by (simp add: mongo id_mapDocumentToEntity orderBy_desc_def)
  have empties: "DrizzleTodoRepository_findByTags rows [] = []
     \<and> PrismaTodoRepository_findByTags rows [] = []
     \<and> MongooseTodoRepository_findByTags docs [] = []"
    by (simp add: DrizzleTodoRepository_findByTags_def PrismaTodoRepository_findByTags_def
        prisma_findMany_desc_def hasSome_def MongooseTodoRepository_findByTags_def
        mongoose_find_desc_def in_values_def orderBy_desc_def list_ex_iff)
  from sql entities shared ids empties show ?thesis by simp
qed

text \<open>
  The theorem at stores that hold \<open>a\<close> (tagged home) and \<open>b\<close> (tagged work and home),
  asked for the tags work and urgent: only \<open>b\<close> shares a tag with the input.
\<close>

theorem C7_findByTags_any_match_witness:
  "mset (DrizzleTodoRepository_findByTags [todo_a, todo_b] [''work'', ''urgent'']) = {#todo_b#}
   \<and> mset (PrismaTodoRepository_findByTags [todo_a, todo_b] [''work'', ''urgent'']) = {#todo_b#}
   \<and> mset (MongooseTodoRepository_findByTags [doc_a, doc_b] [''work'', ''urgent''])
       = {#\<lparr>id' = ''b'', title = ''second'', description = None, completed = True,
             priority = Some ''high'', dueDate = None, tags = [''work'', ''home''],
             metadata = None, createdAt = 2000, updatedAt = 2500\<rparr>#}
   \<and> mset (map id' (MongooseTodoRepository_findByTags [doc_a, doc_b] [''work'', ''urgent'']))
       = {#''b''#}
   \<and> map tags (MongooseTodoRepository_findByTags [doc_a, doc_b] [''work'', ''urgent''])
       = [[''work'', ''home'']]
   \<and> shares_a_tag [''work'', ''home''] [''work'', ''urgent'']"
proof -
  have t: "map tags (MongooseTodoRepository_findByTags [doc_a, doc_b] [''work'', ''urgent''])
       = [[''work'', ''home'']]"
    by (simp add: MongooseTodoRepository_findByTags_def mongoose_find_desc_def in_values_def
        orderBy_desc_def mapDocumentToEntity_def doc_a_def doc_b_def)
  from C7_findByTags_any_match [of "[todo_a, todo_b]" "[''work'', ''urgent'']" "[doc_a, doc_b]"] t
  show ?thesis
    by (simp add: shares_a_tag_def todo_a_def todo_b_def doc_a_def doc_b_def)
qed

section \<open>Error-tracking dispatcher\<close>

text \<open>
  Claim C9: for every error and metadata argument and every configured error-tracking
  provider (none included), captureException of the unified dispatcher returns to its
  caller without throwing; when no provider is active it only writes a debug line, and
  when the provider's call throws, the thrown value is logged locally.
\<close>

theorem C9_captureException_never_throws:
  "fst (captureException services (fst (initializeService featureFlags)) err meta) = Inr ()
   \<and> captureException services None err meta
       = (Inr (), [logger_debug ''No error tracking service available''])
   \<and> (services svc err meta = Inl thrown \<longrightarrow>
        captureException services (Some svc) err meta
          = (Inr (), [logger_error ''Failed to capture exception:'' thrown]))"
  by (simp add: captureException_def split: option.splits sum.splits)

text \<open>
  The theorem at a configuration that selects Sentry, with vendor services whose every
  call throws.
\<close>

theorem C9_captureException_never_throws_witness:
  "fst (initializeService sentry_selected) = Some sentryService
   \<and> failing_services sentryService ''boom'' None = Inl (Error ''socket hang up'')
   \<and> captureException failing_services (fst (initializeService sentry_selected)) ''boom'' None
       = (Inr (), [logger_error ''Failed to capture exception:'' (Error ''socket hang up'')])"
proof -
  have a: "fst (initializeService sentry_selected) = Some sentryService"
    by (simp add: initializeService_def isErrorTrackingEnabled_def getErrorTrackingProvider_def
        sentry_selected_def provider_defs)
  have t: "failing_services sentryService ''boom'' None = Inl (Error ''socket hang up'')"
    by (simp add: failing_services_def)
  from C9_captureException_never_throws
         [of failing_services sentry_selected "''boom''" None sentryService "Error ''socket hang up''"]
       a t
  show ?thesis by simp
qed

section \<open>Validation pipe\<close>

text \<open>
  Claim C10: the Zod validation pipe validates HTTP body arguments only. For every value
  whose argument metadata type is not \<^verbatim>\<open>body\<close>, transform returns the value unchanged
  without applying the schema, so a rejection by this pipe can only concern a request
  body.
\<close>

theorem C10_transform_validates_body_only:
  "(arg_type argMetadata \<noteq> body \<longrightarrow> ZodValidationPipe_transform schema v argMetadata = Inr v)
   \<and> (ZodValidationPipe_transform schema v argMetadata = Inl e \<longrightarrow> arg_type argMetadata = body)"
  by (simp add: ZodValidationPipe_transform_def)

text \<open>
  The theorem at a value with an empty title, which CreateTodoSchema rejects as a body
  and which passes unchanged as a query argument.
\<close>

theorem C10_transform_validates_body_only_witness:
  "arg_type \<lparr>arg_type = query, arg_data = None\<rparr> \<noteq> body
   \<and> ZodValidationPipe_transform CreateTodoSchema untitled \<lparr>arg_type = query, arg_data = None\<rparr>
       = Inr untitled
   \<and> ZodValidationPipe_transform CreateTodoSchema untitled \<lparr>arg_type = body, arg_data = None\<rparr>
       = Inl (BadRequestException_object ''Validation failed''
                [\<lparr>field = ''title'', message = ''Title is required'', code = ''too_small''\<rparr>] 400)"
proof -
  have q: "arg_type \<lparr>arg_type = query, arg_data = None\<rparr> \<noteq> body" by simp
  have b: "ZodValidationPipe_transform CreateTodoSchema untitled \<lparr>arg_type = body, arg_data = None\<rparr>
       = Inl (BadRequestException_object ''Validation failed''
                [\<lparr>field = ''title'', message = ''Title is required'', code = ''too_small''\<rparr>] 400)"
    by (simp add: ZodValidationPipe_transform_def CreateTodoSchema_def untitled_def)
  from C10_transform_validates_body_only
         [of "\<lparr>arg_type = query, arg_data = None\<rparr>" CreateTodoSchema untitled] q b
  show ?thesis by simp
qed

end
